theory Spec2Isabelle
  imports Main
begin

section \<open>Python strings\<close>

text \<open>
  A Python \<open>str\<close> is modelled as a \<open>string\<close> whose characters are the code points
  below 256; every function of this section is the restriction of the Python method
  of the same name to such strings.
\<close>

definition isspace :: "char \<Rightarrow> bool" where
  \<comment> \<open>\<open>str.isspace\<close>, the set \<open>str.strip()\<close> removes and the regex class \<open>\<^verbatim>\<open>\s\<close>\<close> matches\<close>
  "isspace c = (c \<in> set [CHR 0x09, CHR 0x0A, CHR 0x0B, CHR 0x0C, CHR 0x0D,
                            CHR 0x1C, CHR 0x1D, CHR 0x1E, CHR 0x1F, CHR 0x20,
                            CHR 0x85, CHR 0xA0])"

definition upper_chars :: string where
  "upper_chars = ''ABCDEFGHIJKLMNOPQRSTUVWXYZ'' @
     [CHR 0xC0, CHR 0xC1, CHR 0xC2, CHR 0xC3, CHR 0xC4, CHR 0xC5, CHR 0xC6, CHR 0xC7,
      CHR 0xC8, CHR 0xC9, CHR 0xCA, CHR 0xCB, CHR 0xCC, CHR 0xCD, CHR 0xCE, CHR 0xCF,
      CHR 0xD0, CHR 0xD1, CHR 0xD2, CHR 0xD3, CHR 0xD4, CHR 0xD5, CHR 0xD6,
      CHR 0xD8, CHR 0xD9, CHR 0xDA, CHR 0xDB, CHR 0xDC, CHR 0xDD, CHR 0xDE]"

definition lower_chars :: string where
  "lower_chars = ''abcdefghijklmnopqrstuvwxyz'' @
     [CHR 0xE0, CHR 0xE1, CHR 0xE2, CHR 0xE3, CHR 0xE4, CHR 0xE5, CHR 0xE6, CHR 0xE7,
      CHR 0xE8, CHR 0xE9, CHR 0xEA, CHR 0xEB, CHR 0xEC, CHR 0xED, CHR 0xEE, CHR 0xEF,
      CHR 0xF0, CHR 0xF1, CHR 0xF2, CHR 0xF3, CHR 0xF4, CHR 0xF5, CHR 0xF6,
      CHR 0xF8, CHR 0xF9, CHR 0xFA, CHR 0xFB, CHR 0xFC, CHR 0xFD, CHR 0xFE]"

definition lower_char :: "char \<Rightarrow> char" where
  "lower_char c = (case map_of (zip upper_chars lower_chars) c of Some d \<Rightarrow> d | None \<Rightarrow> c)"

definition lower :: "string \<Rightarrow> string" where
  \<comment> \<open>\<open>str.lower()\<close>\<close>
  "lower s = map lower_char s"

definition strip :: "string \<Rightarrow> string" where
  \<comment> \<open>\<open>str.strip()\<close>\<close>
  "strip s = rev (dropWhile isspace (rev (dropWhile isspace s)))"

definition lstrip_zero :: "string \<Rightarrow> string" where
  \<comment> \<open>\<open>str.lstrip("0")\<close>\<close>
  "lstrip_zero s = dropWhile (\<lambda>c. c = CHR ''0'') s"

fun startswith :: "string \<Rightarrow> string \<Rightarrow> bool" where
  \<comment> \<open>\<open>s.startswith(p)\<close>, written \<open>startswith p s\<close>\<close>
  "startswith [] s = True"
| "startswith (p # ps) [] = False"
| "startswith (p # ps) (c # cs) = (p = c \<and> startswith ps cs)"

fun contains :: "string \<Rightarrow> string \<Rightarrow> bool" where
  \<comment> \<open>\<open>sub in s\<close>, written \<open>contains sub s\<close>\<close>
  "contains sub [] = (sub = [])"
| "contains sub (c # cs) = (startswith sub (c # cs) \<or> contains sub cs)"

fun split_char :: "char \<Rightarrow> string \<Rightarrow> string list" where
  \<comment> \<open>\<open>s.split(d)\<close> for a one-character separator \<open>d\<close>\<close>
  "split_char d [] = [[]]"
| "split_char d (c # cs) =
     (if c = d then [] # split_char d cs
      else (case split_char d cs of [] \<Rightarrow> [[c]] | p # ps \<Rightarrow> (c # p) # ps))"

fun split_nonempty :: "string \<Rightarrow> string \<Rightarrow> string list" where
  "split_nonempty sep [] = [[]]"
| "split_nonempty sep (c # cs) =
     (if startswith sep (c # cs) then [] # split_nonempty sep (drop (length sep - 1) cs)
      else (case split_nonempty sep cs of [] \<Rightarrow> [[c]] | p # ps \<Rightarrow> (c # p) # ps))"

definition re_split :: "string \<Rightarrow> string \<Rightarrow> string list" where
  \<comment> \<open>\<open>re.split(re.escape(sep), s)\<close>: the pieces of \<open>s\<close> between the leftmost
      non-overlapping occurrences of the literal \<open>sep\<close>; an empty pattern matches at
      every position\<close>
  "re_split sep s =
     (if sep = [] then [] # map (\<lambda>c. [c]) s @ [[]] else split_nonempty sep s)"

definition digit_char :: "nat \<Rightarrow> char" where
  "digit_char n = ''0123456789'' ! (n mod 10)"

fun str_nat :: "nat \<Rightarrow> string" where
  \<comment> \<open>\<open>str(n)\<close> of a non-negative integer\<close>
  "str_nat n = (if n < 10 then [digit_char n] else str_nat (n div 10) @ [digit_char n])"

definition pad2 :: "nat \<Rightarrow> string" where
  \<comment> \<open>the format \<open>:02\<close> (and the two-digit \<open>strftime\<close> fields)\<close>
  "pad2 n = (if n < 10 then CHR ''0'' # str_nat n else str_nat n)"

definition isdigit :: "char \<Rightarrow> bool" where
  \<comment> \<open>the regex class \<open>\<^verbatim>\<open>\d\<close>\<close> on code points below 256\<close>
  "isdigit c = (c \<in> set ''0123456789'')"

definition digit_val :: "char \<Rightarrow> nat" where
  "digit_val c = (case map_of (zip ''0123456789'' [0, 1, 2, 3, 4, 5, 6, 7, 8, 9]) c of
                    Some n \<Rightarrow> n | None \<Rightarrow> 0)"

definition int_of_str :: "string \<Rightarrow> nat" where
  \<comment> \<open>\<open>int(t)\<close> for a token of decimal digits, possibly after blanks\<close>
  "int_of_str t = foldl (\<lambda>n c. 10 * n + digit_val c) 0 (filter isdigit t)"

section \<open>Dates and times\<close>

text \<open>
  The value a successful \<open>pd.to_datetime(text, format=...)\<close> returns: a calendar date
  with a time of day, to the minute (the formats of this program have no finer field).
  \<open>toordinal\<close> is the proleptic Gregorian day number of CPython's \<open>datetime\<close>
  (day 1 is 0001-01-01) and \<open>value_ns\<close> is pandas' \<open>Timestamp.value\<close>, nanoseconds
  since 1970-01-01.
\<close>

record civil =
  year :: nat
  month :: nat
  day :: nat
  hour :: nat
  minute :: nat

definition is_leap :: "nat \<Rightarrow> bool" where
  "is_leap y = (y mod 4 = 0 \<and> (y mod 100 \<noteq> 0 \<or> y mod 400 = 0))"

definition days_in_month :: "nat \<Rightarrow> nat \<Rightarrow> nat" where
  "days_in_month y m =
     (if m = 2 then (if is_leap y then 29 else 28)
      else if m \<in> {4, 6, 9, 11} then 30 else 31)"

definition days_before_year :: "nat \<Rightarrow> int" where
  "days_before_year y = (let p = int y - 1 in p * 365 + p div 4 - p div 100 + p div 400)"

definition days_before_month :: "nat \<Rightarrow> nat \<Rightarrow> int" where
  \<comment> \<open>the days of the year before the first of month \<open>m\<close>\<close>
  "days_before_month y m =
     [0, 31, 59, 90, 120, 151, 181, 212, 243, 273, 304, 334] ! ((m - 1) mod 12) +
     (if m > 2 \<and> is_leap y then 1 else 0)"

definition toordinal :: "civil \<Rightarrow> int" where
  "toordinal c = days_before_year (year c) + days_before_month (year c) (month c) + int (day c)"

definition ns_per_minute :: int where
  "ns_per_minute = 60 * 1000000000"

definition ns_per_day :: int where
  "ns_per_day = 1440 * ns_per_minute"

definition value_ns :: "civil \<Rightarrow> int" where
  "value_ns c =
     ((toordinal c - 719163) * 1440 + int (hour c) * 60 + int (minute c)) * ns_per_minute"

definition day_name :: "civil \<Rightarrow> string" where
  \<comment> \<open>\<open>strftime("%A")\<close>\<close>
  "day_name c =
     [''Monday'', ''Tuesday'', ''Wednesday'', ''Thursday'', ''Friday'', ''Saturday'', ''Sunday'']
       ! nat ((toordinal c + 6) mod 7)"

definition valid_civil :: "civil \<Rightarrow> bool" where
  \<comment> \<open>a date of the calendar that a nanosecond \<open>Timestamp\<close> can hold (pandas raises
      on any other: an invalid day, or \<open>OutOfBoundsDatetime\<close>)\<close>
  "valid_civil c =
     (1 \<le> year c \<and> 1 \<le> month c \<and> month c \<le> 12 \<and>
      1 \<le> day c \<and> day c \<le> days_in_month (year c) (month c) \<and>
      hour c < 24 \<and> minute c < 60 \<and>
      - (2 ^ 63) < value_ns c \<and> value_ns c < 2 ^ 63)"

section \<open>Format patterns\<close>

text \<open>
  A \<open>strftime\<close>/\<open>strptime\<close> pattern is a list of literal characters and directives;
  \<open>"%I:%M %p"\<close> is \<open>[Dir DI, Lit CHR '':'', Dir DM, Lit CHR '' '', Dir Dp]\<close>. The
  directives are the date and time fields this program's configuration uses:
  \<open>%Y %m %d %H %I %M %p\<close>.
\<close>

datatype directive = DY | Dm | Dd | DH | DI | DM | Dp

datatype fmt_item = Lit char | Dir directive

type_synonym fmt = "fmt_item list"

definition hour12 :: "nat \<Rightarrow> nat" where
  "hour12 h = (if h mod 12 = 0 then 12 else h mod 12)"

fun strftime_item :: "civil \<Rightarrow> fmt_item \<Rightarrow> string" where
  "strftime_item c (Lit x) = [x]"
| "strftime_item c (Dir DY) = str_nat (year c)"
| "strftime_item c (Dir Dm) = pad2 (month c)"
| "strftime_item c (Dir Dd) = pad2 (day c)"
| "strftime_item c (Dir DH) = pad2 (hour c)"
| "strftime_item c (Dir DI) = pad2 (hour12 (hour c))"
| "strftime_item c (Dir DM) = pad2 (minute c)"
| "strftime_item c (Dir Dp) = (if hour c < 12 then ''AM'' else ''PM'')"

definition strftime :: "fmt \<Rightarrow> civil \<Rightarrow> string" where
  "strftime f c = concat (map (strftime_item c) f)"

subsection \<open>Parsing: the pattern as a regular expression\<close>

text \<open>
  \<open>strptime\<close> turns the pattern into a regular expression: a run of whitespace becomes
  \<open>\<^verbatim>\<open>\s+\<close>\<close>, a directive a named group of alternatives, any other character itself;
  the expression is matched ignoring case from the start of the text, alternatives in
  their order and \<open>\<^verbatim>\<open>\s+\<close>\<close> greedily, both with backtracking, and the match must end
  at the end of the text.
\<close>

datatype rx = RChar char | RSpaces | RGroup directive

fun compile :: "fmt \<Rightarrow> rx list" where
  "compile [] = []"
| "compile (Dir d # f) = RGroup d # compile f"
| "compile (Lit c # f) =
     (if isspace c then (case compile f of RSpaces # r \<Rightarrow> RSpaces # r | r \<Rightarrow> RSpaces # r)
      else RChar c # compile f)"

definition one_of :: "string \<Rightarrow> char \<Rightarrow> bool" where
  "one_of cs c = (c \<in> set cs)"

fun group_alts :: "directive \<Rightarrow> (char \<Rightarrow> bool) list list" where
  \<comment> \<open>the alternatives of each group, every one a sequence of character classes\<close>
  "group_alts DY = [[isdigit, isdigit, isdigit, isdigit]]"
| "group_alts Dm = [[one_of ''1'', one_of ''012''], [one_of ''0'', one_of ''123456789''],
                    [one_of ''123456789'']]"
| "group_alts Dd = [[one_of ''3'', one_of ''01''], [one_of ''12'', isdigit],
                    [one_of ''0'', one_of ''123456789''], [one_of ''123456789''],
                    [one_of '' '', one_of ''123456789'']]"
| "group_alts DH = [[one_of ''2'', one_of ''0123''], [one_of ''01'', isdigit], [isdigit]]"
| "group_alts DI = [[one_of ''1'', one_of ''012''], [one_of ''0'', one_of ''123456789''],
                    [one_of ''123456789'']]"
| "group_alts DM = [[one_of ''012345'', isdigit], [isdigit]]"
| "group_alts Dp = [[one_of ''aA'', one_of ''mM''], [one_of ''pP'', one_of ''mM'']]"

fun classes :: "(char \<Rightarrow> bool) list \<Rightarrow> string \<Rightarrow> (string \<times> string) option" where
  \<comment> \<open>the text split after a prefix that matches the classes, character by character\<close>
  "classes [] s = Some ([], s)"
| "classes (p # ps) [] = None"
| "classes (p # ps) (c # cs) =
     (if p c then map_option (\<lambda>(t, r). (c # t, r)) (classes ps cs) else None)"

fun first_some :: "'a option list \<Rightarrow> 'a option" where
  "first_some [] = None"
| "first_some (None # xs) = first_some xs"
| "first_some (Some x # xs) = Some x"

type_synonym groups = "(directive \<times> string) list"

fun rx_match :: "rx list \<Rightarrow> string \<Rightarrow> (groups \<times> string) option" where
  \<comment> \<open>the first match in the matcher's search order: the groups and the text left over\<close>
  "rx_match [] s = Some ([], s)"
| "rx_match (RChar c # r) s =
     (case s of [] \<Rightarrow> None
      | x # xs \<Rightarrow> if lower_char x = lower_char c then rx_match r xs else None)"
| "rx_match (RSpaces # r) s =
     first_some (map (\<lambda>n. rx_match r (drop n s))
                     (rev [1..<Suc (length (takeWhile isspace s))]))"
| "rx_match (RGroup d # r) s =
     first_some (map (\<lambda>ps. case classes ps s of None \<Rightarrow> None
                              | Some (t, rest) \<Rightarrow>
                                  map_option (\<lambda>(g, e). ((d, t) # g, e)) (rx_match r rest))
                     (group_alts d))"

fun directives :: "fmt \<Rightarrow> directive list" where
  "directives [] = []"
| "directives (Lit c # f) = directives f"
| "directives (Dir d # f) = d # directives f"

definition hour_of_I :: "groups \<Rightarrow> string \<Rightarrow> nat" where
  \<comment> \<open>the hour of a \<open>%I\<close> field, by the \<open>%p\<close> field of the same match (AM when absent)\<close>
  "hour_of_I g t =
     (let h = int_of_str t;
          ampm = (case map_of g Dp of None \<Rightarrow> [] | Some p \<Rightarrow> lower p)
      in if ampm = [] \<or> ampm = ''am'' then (if h = 12 then 0 else h)
         else if ampm = ''pm'' then (if h \<noteq> 12 then h + 12 else h)
         else h)"

fun set_field :: "groups \<Rightarrow> civil \<Rightarrow> directive \<times> string \<Rightarrow> civil" where
  "set_field g c (DY, t) = c\<lparr>year := int_of_str t\<rparr>"
| "set_field g c (Dm, t) = c\<lparr>month := int_of_str t\<rparr>"
| "set_field g c (Dd, t) = c\<lparr>day := int_of_str t\<rparr>"
| "set_field g c (DH, t) = c\<lparr>hour := int_of_str t\<rparr>"
| "set_field g c (DI, t) = c\<lparr>hour := hour_of_I g t\<rparr>"
| "set_field g c (DM, t) = c\<lparr>minute := int_of_str t\<rparr>"
| "set_field g c (Dp, t) = c"

definition civil_default :: civil where
  \<comment> \<open>the fields a pattern does not set: 1900-01-01 00:00\<close>
  "civil_default = \<lparr>year = 1900, month = 1, day = 1, hour = 0, minute = 0\<rparr>"

definition strptime :: "fmt \<Rightarrow> string \<Rightarrow> civil option" where
  \<comment> \<open>\<open>None\<close>: the exception of a text that does not match, of text left over, of a
      directive used twice (a group name defined twice) and of a date that does not exist\<close>
  "strptime f s =
     (if \<not> distinct (directives f) then None
      else case rx_match (compile f) s of
             None \<Rightarrow> None
           | Some (g, rest) \<Rightarrow>
               if rest \<noteq> [] then None
               else (let c = foldl (set_field g) civil_default g
                     in if valid_civil c then Some c else None))"

datatype tsval = NaT | Timestamp civil

definition nat_strings :: "string list" where
  "nat_strings = [''NaT'', ''nat'', ''NAT'', ''nan'', ''NaN'', ''NAN'']"

definition to_datetime :: "fmt \<Rightarrow> string \<Rightarrow> tsval option" where
  \<comment> \<open>\<open>pd.to_datetime(s, format=f)\<close>; \<open>None\<close> when it raises. The empty text and the
      texts pandas reads as "not a time" give \<open>NaT\<close> without being matched.\<close>
  "to_datetime f s =
     (if \<not> distinct (directives f) then None
      else if s = [] \<or> s \<in> set nat_strings then Some NaT
      else map_option Timestamp (strptime f s))"

section \<open>The schedule parser (parser.py)\<close>

text \<open>
  A cell of the data frame \<open>pd.read_csv(..., header=None)\<close> returns: missing, a text, or
  a number (of a column that holds numbers only), which carries the text \<open>str()\<close>
  prints for it.
\<close>

datatype cell = NaN | Str string | Num string

datatype error =
    AttributeError | IndexError | ValueError
  | FileNotFoundError | IsADirectoryError | JSONDecodeError | ParserError

record config =
  Format_Date :: fmt
  Format_Time :: fmt
  Format_Duration :: string
  Missing_Omit :: bool
  Missing_Replacement :: string
  Split_Skip :: bool
  Split_Separator :: string

definition DEFAULT_CONFIG :: config where
  "DEFAULT_CONFIG =
     \<lparr>Format_Date = [Dir Dm, Lit CHR ''/'', Dir Dd, Lit CHR ''/'', Dir DY],
      Format_Time = [Dir DI, Lit CHR '':'', Dir DM, Lit CHR '' '', Dir Dp],
      Format_Duration = ''H:MM'',
      Missing_Omit = True,
      Missing_Replacement = ''missing'',
      Split_Skip = False,
      Split_Separator = ''/''\<rparr>"

subsection \<open>\<open>_parse_time_and_duration\<close>\<close>

definition time_format_attempts :: "fmt list" where
  \<comment> \<open>\<open>["%I %p", "%I:%M %p"]\<close>\<close>
  "time_format_attempts =
     [[Dir DI, Lit CHR '' '', Dir Dp],
      [Dir DI, Lit CHR '':'', Dir DM, Lit CHR '' '', Dir Dp]]"

fun try_formats :: "fmt list \<Rightarrow> string \<Rightarrow> tsval option" where
  \<comment> \<open>the loop over the patterns: the first \<open>to_datetime\<close> that does not raise ends it;
      \<open>None\<close> when every one raised\<close>
  "try_formats [] s = None"
| "try_formats (f # fs) s =
     (case to_datetime f s of Some t \<Rightarrow> Some t | None \<Rightarrow> try_formats fs s)"

definition duration_str :: "int \<Rightarrow> string" where
  \<comment> \<open>the duration, in nanoseconds, as hours and two-digit minutes\<close>
  "duration_str d =
     (let total_seconds = d div 1000000000
      in str_nat (nat (total_seconds div 3600)) @ '':'' @
         pad2 (nat ((total_seconds mod 3600) div 60)))"

definition parse_time_and_duration :: "config \<Rightarrow> cell \<Rightarrow> error + (string \<times> string) option" where
  \<comment> \<open>\<open>Inr None\<close> is the pair \<open>(None, None)\<close>. Inside the \<open>try\<close>, every exception ends
      in \<open>(None, None)\<close>: the unpacking of other than two pieces, a time left unset, and
      the arithmetic on a \<open>NaT\<close>. A cell that is not a text has no \<open>strip\<close>.\<close>
  "parse_time_and_duration cfg x =
     (case x of
        Str raw \<Rightarrow>
          Inr (let interval = strip raw
               in if contains ''Time'' interval \<or> interval = [] \<or> \<not> contains ''-'' interval
                  then None
                  else (case split_char CHR ''-'' (lower interval) of
                          [start_str, end_str] \<Rightarrow>
                            (case (try_formats time_format_attempts (strip start_str),
                                   try_formats time_format_attempts (strip end_str)) of
                               (Some (Timestamp start_dt), Some (Timestamp end_dt)) \<Rightarrow>
                                 (let end_ns = (if value_ns end_dt < value_ns start_dt
                                                then value_ns end_dt + ns_per_day
                                                else value_ns end_dt);
                                      duration = end_ns - value_ns start_dt
                                  in Some (lstrip_zero (strftime (Format_Time cfg) start_dt),
                                           duration_str duration))
                             | _ \<Rightarrow> None)
                        | _ \<Rightarrow> None))
      | _ \<Rightarrow> Inl AttributeError)"

subsection \<open>\<open>_parse_block\<close>\<close>

text \<open>
  A data frame is its width and its rows. \<open>read_csv\<close> pads a short line with missing
  cells, so a row reads as \<open>NaN\<close> beyond its end.
\<close>

record frame =
  ncols :: nat
  rows :: "cell list list"

definition cell_at :: "cell list \<Rightarrow> nat \<Rightarrow> cell" where
  "cell_at r c = (if c < length r then r ! c else NaN)"

fun isna :: "cell \<Rightarrow> bool" where
  \<comment> \<open>\<open>pd.isna\<close>\<close>
  "isna NaN = True"
| "isna (Str s) = False"
| "isna (Num s) = False"

fun str_cell :: "cell \<Rightarrow> string" where
  \<comment> \<open>\<open>str(x)\<close>\<close>
  "str_cell NaN = ''nan''"
| "str_cell (Str s) = s"
| "str_cell (Num s) = s"

record entry =
  Week :: int
  Day :: string
  Date :: cell
  Start_Time :: string
  Duration :: string
  Team :: string

text \<open>
  \<open>Date\<close> is a text in every row \<open>_parse_block\<close> appends; \<open>parse_schedule\<close> writes the
  column again after sorting, and a \<open>NaT\<close> there is written as \<open>NaN\<close>.
\<close>

fun concat_results :: "(error + 'a list) list \<Rightarrow> error + 'a list" where
  \<comment> \<open>the rows a loop appends, pass by pass, or the first exception that leaves it\<close>
  "concat_results [] = Inr []"
| "concat_results (Inl e # rs) = Inl e"
| "concat_results (Inr xs # rs) =
     (case concat_results rs of Inl e \<Rightarrow> Inl e | Inr ys \<Rightarrow> Inr (xs @ ys))"

definition team_list_of :: "config \<Rightarrow> cell \<Rightarrow> string list option" where
  \<comment> \<open>the participants of a cell; \<open>None\<close> is the \<open>continue\<close> of an omitted empty cell\<close>
  "team_list_of cfg team_entry =
     (let team_str = (if \<not> isna team_entry then strip (str_cell team_entry) else [])
      in if team_str = []
         then (if Missing_Omit cfg then None else Some [Missing_Replacement cfg])
         else if Split_Skip cfg then Some [team_str]
         else Some (filter (\<lambda>t. t \<noteq> [])
                      (map strip (re_split (Split_Separator cfg) team_str))))"

definition make_row :: "int \<Rightarrow> config \<Rightarrow> civil \<Rightarrow> string \<Rightarrow> string \<Rightarrow> string \<Rightarrow> entry" where
  \<comment> \<open>the dictionary appended for one participant; \<open>.days\<close> of a time difference is its
      floor in days, and \<open>//\<close> is floor division\<close>
  "make_row reference_date cfg date_obj start_time duration team =
     \<lparr>Week = ((value_ns date_obj - reference_date) div ns_per_day) div 7,
      Day = day_name date_obj,
      Date = Str (strftime (Format_Date cfg) date_obj),
      Start_Time = start_time,
      Duration = duration,
      Team = team\<rparr>"

definition row_entries ::
  "int \<Rightarrow> config \<Rightarrow> string \<Rightarrow> string \<Rightarrow> cell \<Rightarrow> cell \<Rightarrow> error + entry list" where
  \<comment> \<open>one pass of the inner loop: the date cell and the participant cell of one row.
      A date pandas reads as \<open>NaT\<close> has no \<open>strftime\<close>: the first append raises.\<close>
  "row_entries reference_date cfg start_time duration date_str team_entry =
     (if isna date_str \<or> contains ''ice'' (lower (str_cell date_str)) then Inr []
      else (case to_datetime (Format_Date cfg) (str_cell date_str) of
              None \<Rightarrow> Inr []
            | Some date_obj \<Rightarrow>
                (case team_list_of cfg team_entry of
                   None \<Rightarrow> Inr []
                 | Some team_list \<Rightarrow>
                     (case date_obj of
                        NaT \<Rightarrow> (if team_list = [] then Inr [] else Inl ValueError)
                      | Timestamp d \<Rightarrow>
                          Inr (map (make_row reference_date cfg d start_time duration)
                                   team_list)))))"

definition column_entries :: "int \<Rightarrow> config \<Rightarrow> frame \<Rightarrow> nat \<Rightarrow> error + entry list" where
  \<comment> \<open>one pass of the outer loop: column \<open>col\<close> of the block, its time slot read from
      row 2 and its participants from row 3 on, each beside the date of its row\<close>
  "column_entries reference_date cfg block col =
     (if length (rows block) < 3 then Inl IndexError
      else (let time_interval = cell_at (rows block ! 2) col
            in if isna time_interval then Inr []
               else (case parse_time_and_duration cfg time_interval of
                       Inl e \<Rightarrow> Inl e
                     | Inr None \<Rightarrow> Inr []
                     | Inr (Some (start_time, duration)) \<Rightarrow>
                         if start_time = [] \<or> duration = [] then Inr []
                         else concat_results
                                (map (\<lambda>r. row_entries reference_date cfg start_time duration
                                             (cell_at r 0) (cell_at r col))
                                     (drop 3 (rows block))))))"

definition parse_block :: "int \<Rightarrow> config \<Rightarrow> frame \<Rightarrow> error + entry list" where
  \<comment> \<open>the rows of the returned frame, in the order appended: column by column\<close>
  "parse_block reference_date cfg block =
     (if ncols block = 0 then Inl IndexError
      else concat_results (map (column_entries reference_date cfg block) [1..<ncols block]))"

subsection \<open>\<open>parse_schedule\<close>\<close>

record parser =
  schedule_path :: string
  reference_date :: int
  config :: config
  df :: frame

fun is_marker :: "cell \<Rightarrow> bool" where
  \<comment> \<open>\<open>isinstance(val, str) and val.strip().lower() == "date"\<close>\<close>
  "is_marker (Str v) = (lower (strip v) = ''date'')"
| "is_marker NaN = False"
| "is_marker (Num v) = False"

definition date_cols :: "frame \<Rightarrow> nat list" where
  "date_cols d = filter (\<lambda>i. is_marker (cell_at (rows d ! 1) i)) [0..<ncols d]"

fun block_ranges :: "nat list \<Rightarrow> nat \<Rightarrow> (nat \<times> nat) list" where
  \<comment> \<open>each marker column with the column its block ends before: the next marker, or
      the width of the frame for the last\<close>
  "block_ranges [] n = []"
| "block_ranges [c] n = [(c, n)]"
| "block_ranges (c # c' # cs) n = (c, c') # block_ranges (c' # cs) n"

definition make_block :: "frame \<Rightarrow> nat \<times> nat \<Rightarrow> frame" where
  \<comment> \<open>the columns of the range, without the rows from 3 on whose first cell is missing\<close>
  "make_block d rng =
     (let subset = map (\<lambda>r. map (cell_at r) [fst rng..<snd rng]) (rows d)
      in \<lparr>ncols = snd rng - fst rng,
          rows = take 3 subset @ filter (\<lambda>r. \<not> isna (cell_at r 0)) (drop 3 subset)\<rparr>)"

definition blocks_of :: "frame \<Rightarrow> frame list" where
  "blocks_of d = map (make_block d) (block_ranges (date_cols d) (ncols d))"

fun str_le :: "string \<Rightarrow> string \<Rightarrow> bool" where
  \<comment> \<open>Python's \<open>\<le>\<close> on texts: code point by code point\<close>
  "str_le [] t = True"
| "str_le (c # cs) [] = False"
| "str_le (c # cs) (d # ds) = ((of_char c :: nat) < of_char d \<or> (c = d \<and> str_le cs ds))"

fun date_le :: "tsval \<Rightarrow> tsval \<Rightarrow> bool" where
  \<comment> \<open>the order of the date key: by time, \<open>NaT\<close> last\<close>
  "date_le (Timestamp a) (Timestamp b) = (value_ns a \<le> value_ns b)"
| "date_le (Timestamp a) NaT = True"
| "date_le NaT (Timestamp b) = False"
| "date_le NaT NaT = True"

definition key_le :: "tsval \<times> entry \<Rightarrow> tsval \<times> entry \<Rightarrow> bool" where
  \<comment> \<open>the order of \<open>sort_values(["Date", "Start Time"])\<close>: the parsed date first, then
      the \<open>Start Time\<close> column, which holds texts\<close>
  "key_le x y =
     (if date_le (fst x) (fst y) \<and> date_le (fst y) (fst x)
      then str_le (Start_Time (snd x)) (Start_Time (snd y))
      else date_le (fst x) (fst y))"

fun insort_row :: "tsval \<times> entry \<Rightarrow> (tsval \<times> entry) list \<Rightarrow> (tsval \<times> entry) list" where
  "insort_row x [] = [x]"
| "insort_row x (y # ys) = (if key_le x y then x # y # ys else y # insort_row x ys)"

definition sort_values :: "(tsval \<times> entry) list \<Rightarrow> (tsval \<times> entry) list" where
  \<comment> \<open>the sort on several columns keeps rows of equal keys in their order\<close>
  "sort_values xs = foldr insort_row xs []"

fun parse_dates :: "fmt \<Rightarrow> entry list \<Rightarrow> error + (tsval \<times> entry) list" where
  \<comment> \<open>\<open>pd.to_datetime(result["Date"], format=...)\<close>: raises when one text does not parse\<close>
  "parse_dates f [] = Inr []"
| "parse_dates f (e # es) =
     (case to_datetime f (str_cell (Date e)) of
        None \<Rightarrow> Inl ValueError
      | Some t \<Rightarrow> (case parse_dates f es of Inl x \<Rightarrow> Inl x | Inr r \<Rightarrow> Inr ((t, e) # r)))"

fun format_date :: "fmt \<Rightarrow> tsval \<times> entry \<Rightarrow> entry" where
  \<comment> \<open>\<open>.dt.strftime\<close>: the date as a text again, \<open>NaN\<close> for a \<open>NaT\<close>\<close>
  "format_date f (Timestamp d, e) = e\<lparr>Date := Str (strftime f d)\<rparr>"
| "format_date f (NaT, e) = e\<lparr>Date := NaN\<rparr>"

record indexed_entry = entry +
  Index :: nat

definition with_index :: "nat \<Rightarrow> entry \<Rightarrow> indexed_entry" where
  "with_index i e =
     \<lparr>Week = Week e, Day = Day e, Date = Date e, Start_Time = Start_Time e,
      Duration = Duration e, Team = Team e, Index = i\<rparr>"

definition reset_index :: "entry list \<Rightarrow> indexed_entry list" where
  "reset_index es = map (\<lambda>(i, e). with_index i e) (zip [0..<length es] es)"

definition parse_schedule :: "parser \<Rightarrow> error + indexed_entry list" where
  \<comment> \<open>the rows of the returned frame; \<open>Inr []\<close> is the empty \<open>pd.DataFrame()\<close>\<close>
  "parse_schedule self =
     (if length (rows (df self)) < 2 then Inl IndexError
      else (case concat_results
                   (map (parse_block (reference_date self) (config self)) (blocks_of (df self))) of
              Inl e \<Rightarrow> Inl e
            | Inr result \<Rightarrow>
                if result = [] then Inr []
                else (case parse_dates (Format_Date (config self)) result of
                        Inl e \<Rightarrow> Inl e
                      | Inr dated \<Rightarrow>
                          Inr (reset_index
                                 (map (format_date (Format_Date (config self)))
                                      (sort_values dated))))))"

subsection \<open>\<open>__init__\<close>: the configuration\<close>

text \<open>
  The file system the constructor reads: a path names a directory or a file, and a
  file is what \<open>json.load\<close> and \<open>pd.read_csv\<close> make of it (\<open>None\<close> when they raise).
\<close>

datatype node = Directory | RegularFile "config option" "frame option"

type_synonym filesystem = "string \<Rightarrow> node option"

definition dirname :: "string \<Rightarrow> string" where
  \<comment> \<open>\<open>os.path.dirname\<close> (POSIX)\<close>
  "dirname p =
     (let head = rev (dropWhile (\<lambda>c. c \<noteq> CHR ''/'') (rev p))
      in if filter (\<lambda>c. c \<noteq> CHR ''/'') head \<noteq> []
         then rev (dropWhile (\<lambda>c. c = CHR ''/'') (rev head)) else head)"

definition path_join :: "string \<Rightarrow> string \<Rightarrow> string" where
  \<comment> \<open>\<open>os.path.join(a, b)\<close> for a relative \<open>b\<close>\<close>
  "path_join a b = (if a = [] \<or> last a = CHR ''/'' then a @ b else a @ ''/'' @ b)"

definition load_json :: "filesystem \<Rightarrow> string \<Rightarrow> error + config" where
  \<comment> \<open>\<open>open(path)\<close>, then \<open>json.load\<close>\<close>
  "load_json fs path =
     (case fs path of
        None \<Rightarrow> Inl FileNotFoundError
      | Some Directory \<Rightarrow> Inl IsADirectoryError
      | Some (RegularFile j t) \<Rightarrow> (case j of None \<Rightarrow> Inl JSONDecodeError | Some c \<Rightarrow> Inr c))"

definition read_csv :: "filesystem \<Rightarrow> string \<Rightarrow> error + frame" where
  "read_csv fs path =
     (case fs path of
        None \<Rightarrow> Inl FileNotFoundError
      | Some Directory \<Rightarrow> Inl IsADirectoryError
      | Some (RegularFile j t) \<Rightarrow> (case t of None \<Rightarrow> Inl ParserError | Some d \<Rightarrow> Inr d))"

definition resolve_config :: "filesystem \<Rightarrow> string \<Rightarrow> string option \<Rightarrow> error + config" where
  \<comment> \<open>lines 29 to 38; \<open>if config_path:\<close> is false for \<open>None\<close> and for the empty text\<close>
  "resolve_config fs schedule config_path =
     (if config_path \<noteq> None \<and> config_path \<noteq> Some []
      then load_json fs (the config_path)
      else (let fallback_path = path_join (dirname schedule) ''parser_config.json''
            in if fs fallback_path \<noteq> None then load_json fs fallback_path
               else Inr DEFAULT_CONFIG))"

definition init :: "filesystem \<Rightarrow> string \<Rightarrow> string option \<Rightarrow> int \<Rightarrow> error + parser" where
  \<comment> \<open>the reference date is given as the \<open>Timestamp\<close> it parses to, in nanoseconds\<close>
  "init fs schedule config_path ref =
     (case resolve_config fs schedule config_path of
        Inl e \<Rightarrow> Inl e
      | Inr cfg \<Rightarrow>
          (case read_csv fs schedule of
             Inl e \<Rightarrow> Inl e
           | Inr d \<Rightarrow>
               Inr \<lparr>schedule_path = schedule, reference_date = ref, config = cfg, df = d\<rparr>))"

section \<open>The column expander (expander.py)\<close>









section \<open>The splitter (splitter.py)\<close>















section \<open>Words of the specification, and inputs of the examples\<close>



definition sibling_path :: "string \<Rightarrow> string" where
  \<comment> \<open>\<open>parser_config.json\<close> beside the input file (the \<open>fallback_path\<close> of the constructor)\<close>
  "sibling_path schedule = path_join (dirname schedule) ''parser_config.json''"

definition first_existing :: "filesystem \<Rightarrow> string \<Rightarrow> string option \<Rightarrow> error + config" where
  \<comment> \<open>the specification's words "explicit path, then the sibling file, then the default,
      first existing wins": of the candidates in that order, the first that exists is
      loaded, and the default stands when none exists\<close>
  "first_existing fs schedule config_path =
     (case filter (\<lambda>p. fs p \<noteq> None)
             ((case config_path of None \<Rightarrow> [] | Some p \<Rightarrow> if p = [] then [] else [p]) @
              [sibling_path schedule]) of
        [] \<Rightarrow> Inr DEFAULT_CONFIG
      | p # ps \<Rightarrow> load_json fs p)"

definition ex_config :: config where
  "ex_config = DEFAULT_CONFIG\<lparr>Missing_Omit := False\<rparr>"

definition ex_fs :: filesystem where
  "ex_fs = (\<lambda>p. if p = ''data/parser_config.json'' then Some (RegularFile (Some ex_config) None)
                 else if p = ''my.json'' then Some (RegularFile (Some DEFAULT_CONFIG) None)
                 else None)"

definition civil_date :: "nat \<Rightarrow> nat \<Rightarrow> nat \<Rightarrow> civil" where
  \<comment> \<open>midnight of a calendar date\<close>
  "civil_date y m d = \<lparr>year = y, month = m, day = d, hour = 0, minute = 0\<rparr>"

definition ex_block :: "cell list list \<Rightarrow> frame" where
  \<comment> \<open>a block of one date column and one time column, with the given rows from 3 on\<close>
  "ex_block rs =
     \<lparr>ncols = 2,
      rows = [[Str ''Monday'', NaN], [Str ''Date'', Str ''Time''], [NaN, Str ''6 pm - 7:15 pm'']]
             @ rs\<rparr>"

definition ex_frame :: frame where
  \<comment> \<open>a sheet of one block whose second dated row has no date\<close>
  "ex_frame =
     \<lparr>ncols = 2,
      rows = [[Str ''Monday'', NaN], [Str ''Date'', Str ''Time''], [NaN, Str ''6 pm - 7:15 pm''],
              [Str ''7/21/2025'', Str ''A''], [NaN, Str ''B'']]\<rparr>"

definition default_reference_date :: int where
  \<comment> \<open>\<open>pd.to_datetime("2025-09-02")\<close>, the default of the constructor\<close>
  "default_reference_date = value_ns (civil_date 2025 9 2)"

definition day_marker_frame :: frame where
  \<comment> \<open>the sheet of the repository's test \<open>test_schedule_parser_different_marker\<close>: the
      cells of row 1 read \<open>Day\<close>, none reads \<open>Date\<close>\<close>
  "day_marker_frame =
     \<lparr>ncols = 6,
      rows = [[Str ''Monday'', NaN, Str ''Tuesday'', NaN, NaN, NaN],
              [Str ''Day'', Str ''Time'', Str ''Day'', Str ''Time'', NaN, NaN],
              [NaN, Str ''6 pm - 7:15 pm'', NaN, Str ''6:00 pm - 7:00 pm'',
               Str ''7:00 pm - 8:00 pm'', Str ''8:15 pm - 9:15 pm''],
              [Str ''7/21/2025'', Str ''16U / 18U'', Str ''7/22/2025'', Str ''12U / 14U'',
               Str ''18U'', Str ''16U'']]\<rparr>"

definition morning_frame :: frame where
  \<comment> \<open>one block, one date, a slot from 9 am and a slot from 10 am\<close>
  "morning_frame =
     \<lparr>ncols = 3,
      rows = [[Str ''Monday'', NaN, NaN],
              [Str ''Date'', Str ''Time'', NaN],
              [NaN, Str ''9 am - 10 am'', Str ''10 am - 11 am''],
              [Str ''7/21/2025'', Str ''A'', Str ''B'']]\<rparr>"

section \<open>Properties\<close>

subsection \<open>The splitter's filter\<close>






subsection \<open>The expander's priority\<close>








subsection \<open>The resolution of the configuration\<close>

text \<open>
  Claim C8 as stated fails: an explicit path that does not exist is not passed over for
  the next source. With \<open>parser_config.json\<close> beside the input and the explicit path
  \<open>missing.json\<close> absent, the constructor raises \<open>FileNotFoundError\<close>, where "first
  existing wins" would load the sibling file.
\<close>

theorem resolve_config_counterexample:
  "resolve_config ex_fs ''data/schedule.txt'' (Some ''missing.json'') = Inl FileNotFoundError \<and>
   first_existing ex_fs ''data/schedule.txt'' (Some ''missing.json'') = Inr ex_config"
  by (simp add: resolve_config_def first_existing_def load_json_def ex_fs_def sibling_path_def
      dirname_def path_join_def)

text \<open>
  Claim C8, amended. An explicit path (given and not empty) is the only source read:
  its configuration is used, and a file missing there is an error, never a fallback.
  With no explicit path, \<open>parser_config.json\<close> beside the input file is read when it
  exists, and the built-in default is used otherwise. Whenever no explicit path is
  given, or the explicit path exists, this is "first existing wins". The parser the
  constructor returns holds the configuration so resolved.
\<close>

theorem resolve_config_order:
  "(config_path = Some p \<and> p \<noteq> [] \<longrightarrow>
      resolve_config fs schedule config_path =
        (case fs p of
           None \<Rightarrow> Inl FileNotFoundError
         | Some Directory \<Rightarrow> Inl IsADirectoryError
         | Some (RegularFile None t) \<Rightarrow> Inl JSONDecodeError
         | Some (RegularFile (Some c) t) \<Rightarrow> Inr c)) \<and>
   (config_path = None \<or> config_path = Some [] \<longrightarrow>
      resolve_config fs schedule config_path =
        (case fs (sibling_path schedule) of
           None \<Rightarrow> Inr DEFAULT_CONFIG
         | Some Directory \<Rightarrow> Inl IsADirectoryError
         | Some (RegularFile None t) \<Rightarrow> Inl JSONDecodeError
         | Some (RegularFile (Some c) t) \<Rightarrow> Inr c)) \<and>
   (config_path = None \<or> config_path = Some [] \<or> fs (the config_path) \<noteq> None \<longrightarrow>
      resolve_config fs schedule config_path = first_existing fs schedule config_path) \<and>
   (init fs schedule config_path ref = Inr self \<longrightarrow>
      resolve_config fs schedule config_path = Inr (config self))"
  by (auto simp: resolve_config_def first_existing_def load_json_def sibling_path_def init_def
      split: option.splits node.splits sum.splits)

theorem resolve_config_order_witness:
  "resolve_config ex_fs ''data/schedule.txt'' (Some ''my.json'') = Inr DEFAULT_CONFIG \<and>
   resolve_config ex_fs ''data/schedule.txt'' (Some ''missing.json'') = Inl FileNotFoundError \<and>
   resolve_config ex_fs ''data/schedule.txt'' None = Inr ex_config \<and>
   resolve_config ex_fs ''other/schedule.txt'' None = Inr DEFAULT_CONFIG \<and>
   first_existing ex_fs ''data/schedule.txt'' None = Inr ex_config"
proof -
  have s1: "sibling_path ''data/schedule.txt'' = ''data/parser_config.json''"
    by (simp add: sibling_path_def dirname_def path_join_def)
  have s2: "sibling_path ''other/schedule.txt'' = ''other/parser_config.json''"
    by (simp add: sibling_path_def dirname_def path_join_def)
  have a: "resolve_config ex_fs ''data/schedule.txt'' (Some ''my.json'') = Inr DEFAULT_CONFIG"
    using resolve_config_order [where fs = ex_fs and schedule = "''data/schedule.txt''"
        and config_path = "Some ''my.json''" and p = "''my.json''"]
    by (simp add: ex_fs_def)
  have b: "resolve_config ex_fs ''data/schedule.txt'' (Some ''missing.json'') = Inl FileNotFoundError"
    using resolve_config_order [where fs = ex_fs and schedule = "''data/schedule.txt''"
        and config_path = "Some ''missing.json''" and p = "''missing.json''"]
    by (simp add: ex_fs_def)
  have c: "resolve_config ex_fs ''data/schedule.txt'' None = Inr ex_config"
    using resolve_config_order [where fs = ex_fs and schedule = "''data/schedule.txt''"
        and config_path = None] s1
    by (simp add: ex_fs_def)
  have d: "resolve_config ex_fs ''other/schedule.txt'' None = Inr DEFAULT_CONFIG"
    using resolve_config_order [where fs = ex_fs and schedule = "''other/schedule.txt''"
        and config_path = None] s2
    by (simp add: ex_fs_def)
  have "resolve_config ex_fs ''data/schedule.txt'' None =
        first_existing ex_fs ''data/schedule.txt'' None"
    using resolve_config_order [where fs = ex_fs and schedule = "''data/schedule.txt''"
        and config_path = None]
    by blast
  with c have e: "first_existing ex_fs ''data/schedule.txt'' None = Inr ex_config"
    by simp
  from a b c d e show ?thesis by simp
qed

subsection \<open>Evaluation\<close>

lemmas text_eval =
  strip_def isspace_def lower_def lower_char_def upper_chars_def lower_chars_def
  isdigit_def one_of_def int_of_str_def digit_val_def digit_char_def pad2_def

lemmas date_eval =
  strptime_def to_datetime_def nat_strings_def civil_default_def hour_of_I_def
  valid_civil_def value_ns_def toordinal_def days_before_year_def days_before_month_def
  days_in_month_def is_leap_def ns_per_minute_def ns_per_day_def civil_date_def

lemma to_datetime_2025_07_21:
  "to_datetime (Format_Date DEFAULT_CONFIG) ''7/21/2025'' = Some (Timestamp (civil_date 2025 7 21))"
  by (simp add: DEFAULT_CONFIG_def text_eval date_eval)


subsection \<open>Participants of a cell\<close>



subsection \<open>Rows and columns that give no entry\<close>

lemmas interval_eval =
  parse_time_and_duration_def time_format_attempts_def duration_str_def lstrip_zero_def
  strftime_def hour12_def DEFAULT_CONFIG_def

lemma interval_6pm_715pm:
  "parse_time_and_duration DEFAULT_CONFIG (Str ''6 pm - 7:15 pm'') =
     Inr (Some (''6:00 PM'', ''1:15''))"
  by code_simp

lemma parse_block_ex_block:
  "parse_block ref DEFAULT_CONFIG (ex_block [[Str ''7/21/2025'', Str ''A'']]) =
     Inr [make_row ref DEFAULT_CONFIG (civil_date 2025 7 21) ''6:00 PM'' ''1:15'' ''A'']"
proof -
  have ice: "\<not> contains ''ice'' (lower ''7/21/2025'')" by (simp add: text_eval)
  have tl: "team_list_of DEFAULT_CONFIG (Str ''A'') = Some [''A'']"
    by (simp add: team_list_of_def DEFAULT_CONFIG_def re_split_def text_eval)
  have "row_entries ref DEFAULT_CONFIG ''6:00 PM'' ''1:15'' (Str ''7/21/2025'') (Str ''A'') =
        Inr [make_row ref DEFAULT_CONFIG (civil_date 2025 7 21) ''6:00 PM'' ''1:15'' ''A'']"
    by (simp add: row_entries_def ice tl to_datetime_2025_07_21)
  then show ?thesis
    by (simp add: parse_block_def column_entries_def ex_block_def cell_at_def
        interval_6pm_715pm upt_rec numeral_2_eq_2)
qed

lemma concat_results_append:
  "concat_results (xs @ ys) =
     (case concat_results xs of
        Inl e \<Rightarrow> Inl e
      | Inr a \<Rightarrow> (case concat_results ys of Inl e \<Rightarrow> Inl e | Inr b \<Rightarrow> Inr (a @ b)))"
  by (induction xs rule: concat_results.induct) (auto split: sum.splits)

lemma concat_results_skip: "concat_results (xs @ Inr [] # ys) = concat_results (xs @ ys)"
  by (simp add: concat_results_append split: sum.splits)

lemma concat_results_all_empty:
  "(\<And>x. x \<in> set xs \<Longrightarrow> f x = Inr []) \<Longrightarrow> concat_results (map f xs) = Inr []"
  by (induction xs) auto

lemma concat_results_mem:
  "concat_results rs = Inr es \<Longrightarrow> e \<in> set es \<Longrightarrow> \<exists>xs. Inr xs \<in> set rs \<and> e \<in> set xs"
proof (induction rs arbitrary: es rule: concat_results.induct)
  case 1
  then show ?case by simp
next
  case (2 e' rs)
  then show ?case by simp
next
  case (3 xs rs)
  then show ?case by (fastforce split: sum.splits)
qed

lemma row_entries_no_date:
  "isna date_cell \<or> contains ''ice'' (lower (str_cell date_cell)) \<Longrightarrow>
   row_entries ref cfg st du date_cell team_cell = Inr []"
  by (auto simp: row_entries_def)

lemma row_entries_omitted:
  "Missing_Omit cfg \<Longrightarrow> isna team_cell \<or> strip (str_cell team_cell) = [] \<Longrightarrow>
   row_entries ref cfg st du date_cell team_cell = Inr []"
  by (auto simp: row_entries_def team_list_of_def split: option.splits)

lemma column_entries_drop_row:
  assumes "length hdr = 3"
    and "isna (cell_at r 0) \<or> contains ''ice'' (lower (str_cell (cell_at r 0)))"
  shows "column_entries ref cfg \<lparr>ncols = n, rows = hdr @ before @ r # after\<rparr> col =
         column_entries ref cfg \<lparr>ncols = n, rows = hdr @ before @ after\<rparr> col"
proof -
  have nth2: "(hdr @ xs) ! 2 = hdr ! 2" for xs :: "cell list list"
    using assms(1) by (simp add: nth_append)
  have empty: "row_entries ref cfg st du (cell_at r 0) (cell_at r col) = Inr []" for st du
    using assms(2) by (rule row_entries_no_date)
  have same: "concat_results
                (map (\<lambda>r. row_entries ref cfg st du (cell_at r 0) (cell_at r col)) before @
                 row_entries ref cfg st du (cell_at r 0) (cell_at r col) #
                 map (\<lambda>r. row_entries ref cfg st du (cell_at r 0) (cell_at r col)) after) =
              concat_results
                (map (\<lambda>r. row_entries ref cfg st du (cell_at r 0) (cell_at r col)) before @
                 map (\<lambda>r. row_entries ref cfg st du (cell_at r 0) (cell_at r col)) after)"
    for st du
    by (simp add: empty concat_results_skip)
  show ?thesis
    using assms(1) by (simp add: column_entries_def nth2 Let_def same
        split: sum.split option.split prod.split)
qed

lemma make_block_rows:
  "r \<in> set (drop 3 (rows (make_block d rng))) \<Longrightarrow> \<not> isna (cell_at r 0)"
proof -
  assume a: "r \<in> set (drop 3 (rows (make_block d rng)))"
  let ?sub = "map (\<lambda>r. map (cell_at r) [fst rng..<snd rng]) (rows d)"
  have "drop 3 (rows (make_block d rng)) =
        drop (3 - length (take 3 ?sub)) (filter (\<lambda>r. \<not> isna (cell_at r 0)) (drop 3 ?sub))"
    by (simp add: make_block_def Let_def)
  with a have "r \<in> set (filter (\<lambda>r. \<not> isna (cell_at r 0)) (drop 3 ?sub))"
    by (auto dest: in_set_dropD)
  then show ?thesis by simp
qed

text \<open>
  Claim C6. No entry is emitted: for a column whose time slot is \<open>None\<close> (the cell of
  row 2 is missing, or the interval parser returns \<open>(None, None)\<close> for it); for a row
  whose date cell is missing or contains "ice" in any case; and, when the configuration
  omits missing values (the default), for a participant cell that is missing or blank.
  For a whole block: a row from index 3 on with a missing or "ice" date cell can be
  deleted without changing what \<open>_parse_block\<close> returns, so it gives no entry in any
  column; and the blocks \<open>parse_schedule\<close> builds hold no row from index 3 on with a
  missing date cell.
\<close>

theorem no_entry_emitted:
  "(3 \<le> length (rows block) \<and>
    (isna (cell_at (rows block ! 2) col) \<or>
     parse_time_and_duration cfg (cell_at (rows block ! 2) col) = Inr None) \<longrightarrow>
      column_entries ref cfg block col = Inr []) \<and>
   (isna date_cell \<or> contains ''ice'' (lower (str_cell date_cell)) \<longrightarrow>
      row_entries ref cfg start_time duration date_cell team_cell = Inr []) \<and>
   (Missing_Omit cfg \<and> (isna team_cell \<or> strip (str_cell team_cell) = []) \<longrightarrow>
      row_entries ref cfg start_time duration date_cell team_cell = Inr []) \<and>
   (length hdr = 3 \<and>
    (isna (cell_at r 0) \<or> contains ''ice'' (lower (str_cell (cell_at r 0)))) \<longrightarrow>
      parse_block ref cfg \<lparr>ncols = n, rows = hdr @ before @ r # after\<rparr> =
      parse_block ref cfg \<lparr>ncols = n, rows = hdr @ before @ after\<rparr>) \<and>
   (r' \<in> set (drop 3 (rows (make_block d rng))) \<longrightarrow> \<not> isna (cell_at r' 0))"
proof (intro conjI impI)
  assume "3 \<le> length (rows block) \<and>
    (isna (cell_at (rows block ! 2) col) \<or>
     parse_time_and_duration cfg (cell_at (rows block ! 2) col) = Inr None)"
  then show "column_entries ref cfg block col = Inr []"
    by (auto simp: column_entries_def Let_def)
next
  assume "isna date_cell \<or> contains ''ice'' (lower (str_cell date_cell))"
  then show "row_entries ref cfg start_time duration date_cell team_cell = Inr []"
    by (rule row_entries_no_date)
next
  assume "Missing_Omit cfg \<and> (isna team_cell \<or> strip (str_cell team_cell) = [])"
  then show "row_entries ref cfg start_time duration date_cell team_cell = Inr []"
    by (simp add: row_entries_omitted)
next
  assume "length hdr = 3 \<and>
    (isna (cell_at r 0) \<or> contains ''ice'' (lower (str_cell (cell_at r 0))))"
  then have "column_entries ref cfg \<lparr>ncols = n, rows = hdr @ before @ r # after\<rparr> =
             column_entries ref cfg \<lparr>ncols = n, rows = hdr @ before @ after\<rparr>"
    by (intro ext column_entries_drop_row) auto
  then show "parse_block ref cfg \<lparr>ncols = n, rows = hdr @ before @ r # after\<rparr> =
      parse_block ref cfg \<lparr>ncols = n, rows = hdr @ before @ after\<rparr>"
    by (simp add: parse_block_def)
next
  assume "r' \<in> set (drop 3 (rows (make_block d rng)))"
  then show "\<not> isna (cell_at r' 0)" by (rule make_block_rows)
qed

theorem no_entry_emitted_witness:
  "column_entries 0 DEFAULT_CONFIG
     \<lparr>ncols = 2, rows = [[NaN, NaN], [Str ''Date'', NaN], [NaN, Str ''Time''],
                         [Str ''7/21/2025'', Str ''A'']]\<rparr> 1 = Inr [] \<and>
   row_entries 0 DEFAULT_CONFIG ''6:00 PM'' ''1:15'' (Str ''Ice Time'') (Str ''A'') = Inr [] \<and>
   row_entries 0 DEFAULT_CONFIG ''6:00 PM'' ''1:15'' (Str ''7/21/2025'') NaN = Inr [] \<and>
   parse_block 0 DEFAULT_CONFIG (ex_block [[Str ''7/21/2025'', Str ''A''], [Str ''Ice Time'', Str ''B'']])
     = Inr [make_row 0 DEFAULT_CONFIG (civil_date 2025 7 21) ''6:00 PM'' ''1:15'' ''A''] \<and>
   drop 3 (rows (make_block ex_frame (0, 2))) = [[Str ''7/21/2025'', Str ''A'']] \<and>
   \<not> isna (cell_at [Str ''7/21/2025'', Str ''A''] 0)"
proof -
  let ?tb = "\<lparr>ncols = 2, rows = [[NaN, NaN], [Str ''Date'', NaN], [NaN, Str ''Time''],
                                 [Str ''7/21/2025'', Str ''A'']]\<rparr>"
  have label: "parse_time_and_duration DEFAULT_CONFIG (cell_at (rows ?tb ! 2) 1) = Inr None"
    by (simp add: parse_time_and_duration_def cell_at_def text_eval)
  have a: "column_entries 0 DEFAULT_CONFIG ?tb 1 = Inr []"
    using no_entry_emitted [where block = ?tb and col = 1 and cfg = DEFAULT_CONFIG and ref = 0]
      label by simp
  have ice: "contains ''ice'' (lower (str_cell (Str ''Ice Time'')))" by (simp add: text_eval)
  have b: "row_entries 0 DEFAULT_CONFIG ''6:00 PM'' ''1:15'' (Str ''Ice Time'') (Str ''A'') = Inr []"
    using no_entry_emitted [where date_cell = "Str ''Ice Time''" and cfg = DEFAULT_CONFIG
        and ref = 0 and start_time = "''6:00 PM''" and duration = "''1:15''"
        and team_cell = "Str ''A''"] ice by blast
  have omit: "Missing_Omit DEFAULT_CONFIG" by (simp add: DEFAULT_CONFIG_def)
  have c: "row_entries 0 DEFAULT_CONFIG ''6:00 PM'' ''1:15'' (Str ''7/21/2025'') NaN = Inr []"
    using no_entry_emitted [where date_cell = "Str ''7/21/2025''" and cfg = DEFAULT_CONFIG
        and ref = 0 and start_time = "''6:00 PM''" and duration = "''1:15''"
        and team_cell = NaN] omit by simp
  have ice': "contains ''ice'' (lower (str_cell (cell_at [Str ''Ice Time'', Str ''B''] 0)))"
    by (simp add: cell_at_def text_eval)
  have "parse_block 0 DEFAULT_CONFIG
          \<lparr>ncols = 2, rows = [[Str ''Monday'', NaN], [Str ''Date'', Str ''Time''],
                              [NaN, Str ''6 pm - 7:15 pm'']] @
                             [[Str ''7/21/2025'', Str ''A'']] @
                             [Str ''Ice Time'', Str ''B''] # []\<rparr> =
        parse_block 0 DEFAULT_CONFIG
          \<lparr>ncols = 2, rows = [[Str ''Monday'', NaN], [Str ''Date'', Str ''Time''],
                              [NaN, Str ''6 pm - 7:15 pm'']] @
                             [[Str ''7/21/2025'', Str ''A'']] @ []\<rparr>"
    using no_entry_emitted [where cfg = DEFAULT_CONFIG and ref = 0 and n = 2
        and hdr = "[[Str ''Monday'', NaN], [Str ''Date'', Str ''Time''],
                    [NaN, Str ''6 pm - 7:15 pm'']]"
        and before = "[[Str ''7/21/2025'', Str ''A'']]"
        and r = "[Str ''Ice Time'', Str ''B'']" and after = "[]"] ice'
    by simp
  then have d: "parse_block 0 DEFAULT_CONFIG
                  (ex_block [[Str ''7/21/2025'', Str ''A''], [Str ''Ice Time'', Str ''B'']]) =
                Inr [make_row 0 DEFAULT_CONFIG (civil_date 2025 7 21) ''6:00 PM'' ''1:15'' ''A'']"
    using parse_block_ex_block by (simp add: ex_block_def)
  have e: "drop 3 (rows (make_block ex_frame (0, 2))) = [[Str ''7/21/2025'', Str ''A'']]"
    by (simp add: make_block_def ex_frame_def cell_at_def upt_rec numeral_2_eq_2)
  then have f: "\<not> isna (cell_at [Str ''7/21/2025'', Str ''A''] 0)"
    using no_entry_emitted [where d = ex_frame and rng = "(0, 2)"
        and r' = "[Str ''7/21/2025'', Str ''A'']"] by simp
  from a b c d e f show ?thesis by blast
qed

subsection \<open>The week of an entry\<close>

lemma row_entries_mem:
  assumes "row_entries ref cfg st du date_cell team_cell = Inr es" and "e \<in> set es"
  shows "\<exists>d. to_datetime (Format_Date cfg) (str_cell date_cell) = Some (Timestamp d) \<and>
             Date e = Str (strftime (Format_Date cfg) d) \<and>
             Week e = ((value_ns d - ref) div ns_per_day) div 7"
  using assms
  by (auto simp: row_entries_def make_row_def split: if_splits option.splits tsval.splits)

lemma column_entries_mem:
  assumes "column_entries ref cfg block col = Inr es" and "e \<in> set es"
  shows "\<exists>r d. r \<in> set (drop 3 (rows block)) \<and>
               to_datetime (Format_Date cfg) (str_cell (cell_at r 0)) = Some (Timestamp d) \<and>
               Date e = Str (strftime (Format_Date cfg) d) \<and>
               Week e = ((value_ns d - ref) div ns_per_day) div 7"
proof -
  from assms obtain st du where
    c: "concat_results (map (\<lambda>r. row_entries ref cfg st du (cell_at r 0) (cell_at r col))
                            (drop 3 (rows block))) = Inr es"
    by (auto simp: column_entries_def Let_def split: if_splits sum.splits option.splits)
  from concat_results_mem [OF c assms(2)] obtain xs r where
    "r \<in> set (drop 3 (rows block))"
    "row_entries ref cfg st du (cell_at r 0) (cell_at r col) = Inr xs" "e \<in> set xs"
    by (metis (no_types, lifting) imageE list.set_map)
  with row_entries_mem show ?thesis by blast
qed

lemma week_of_dates:
  assumes "hour d = 0" "minute d = 0" "hour r = 0" "minute r = 0"
  shows "Week (make_row (value_ns r) cfg d st du t) = (toordinal d - toordinal r) div 7"
proof -
  have "value_ns d - value_ns r = (toordinal d - toordinal r) * ns_per_day"
    using assms by (simp add: value_ns_def ns_per_day_def algebra_simps)
  moreover have "ns_per_day \<noteq> 0" by (simp add: ns_per_day_def ns_per_minute_def)
  ultimately show ?thesis by (simp add: make_row_def)
qed

text \<open>
  Claim C5. Every entry \<open>_parse_block\<close> emits comes from a row whose date cell parses to
  a date \<open>d\<close>, and its Week is the floor division by 7 of the whole days from the
  reference date to \<open>d\<close> (the floor of the time difference in days); between two
  dates at midnight that is the difference of their day numbers. A date before the
  reference date gives a negative week. With the reference date 2025-09-02, an entry
  dated 2025-09-02 has week 0, one dated 2025-08-26 week -1, one dated 2025-09-09
  week 1.
\<close>

theorem week_floor_division:
  "(parse_block ref cfg block = Inr es \<and> e \<in> set es \<longrightarrow>
      (\<exists>r d. r \<in> set (drop 3 (rows block)) \<and>
             to_datetime (Format_Date cfg) (str_cell (cell_at r 0)) = Some (Timestamp d) \<and>
             Date e = Str (strftime (Format_Date cfg) d) \<and>
             Week e = ((value_ns d - ref) div ns_per_day) div 7)) \<and>
   (hour d' = 0 \<and> minute d' = 0 \<and> hour r' = 0 \<and> minute r' = 0 \<longrightarrow>
      Week (make_row (value_ns r') cfg d' st du t) = (toordinal d' - toordinal r') div 7) \<and>
   (value_ns d' < ref \<longrightarrow> Week (make_row ref cfg d' st du t) < 0) \<and>
   Week (make_row default_reference_date cfg (civil_date 2025 9 2) st du t) = 0 \<and>
   Week (make_row default_reference_date cfg (civil_date 2025 8 26) st du t) = - 1 \<and>
   Week (make_row default_reference_date cfg (civil_date 2025 9 9) st du t) = 1"
proof (intro conjI impI)
  assume a: "parse_block ref cfg block = Inr es \<and> e \<in> set es"
  then have c: "concat_results (map (column_entries ref cfg block) [1..<ncols block]) = Inr es"
    by (auto simp: parse_block_def split: if_splits)
  from concat_results_mem [OF c] a obtain xs col where
    "column_entries ref cfg block col = Inr xs" "e \<in> set xs"
    by (metis (no_types, lifting) imageE list.set_map)
  then show "\<exists>r d. r \<in> set (drop 3 (rows block)) \<and>
             to_datetime (Format_Date cfg) (str_cell (cell_at r 0)) = Some (Timestamp d) \<and>
             Date e = Str (strftime (Format_Date cfg) d) \<and>
             Week e = ((value_ns d - ref) div ns_per_day) div 7"
    by (rule column_entries_mem)
next
  assume "hour d' = 0 \<and> minute d' = 0 \<and> hour r' = 0 \<and> minute r' = 0"
  then show "Week (make_row (value_ns r') cfg d' st du t) = (toordinal d' - toordinal r') div 7"
    by (simp add: week_of_dates)
next
  assume a: "value_ns d' < ref"
  have p: "0 < ns_per_day" by (simp add: ns_per_day_def ns_per_minute_def)
  from a have "value_ns d' - ref < 0" by simp
  then have "(value_ns d' - ref) div ns_per_day < 0"
    using p by (rule div_neg_pos_less0)
  then have "((value_ns d' - ref) div ns_per_day) div 7 < 0"
    by (rule div_neg_pos_less0) simp
  then show "Week (make_row ref cfg d' st du t) < 0" by (simp add: make_row_def)
next
  show "Week (make_row default_reference_date cfg (civil_date 2025 9 2) st du t) = 0"
    by (simp add: make_row_def default_reference_date_def date_eval)
next
  show "Week (make_row default_reference_date cfg (civil_date 2025 8 26) st du t) = - 1"
    by (simp add: make_row_def default_reference_date_def date_eval)
next
  show "Week (make_row default_reference_date cfg (civil_date 2025 9 9) st du t) = 1"
    by (simp add: make_row_def default_reference_date_def date_eval)
qed

theorem week_floor_division_witness:
  "parse_block default_reference_date DEFAULT_CONFIG (ex_block [[Str ''7/21/2025'', Str ''A'']]) =
     Inr [\<lparr>Week = - 7, Day = ''Monday'', Date = Str ''07/21/2025'', Start_Time = ''6:00 PM'',
           Duration = ''1:15'', Team = ''A''\<rparr>] \<and>
   Week (make_row (value_ns (civil_date 2025 9 2)) DEFAULT_CONFIG (civil_date 2025 8 26)
           ''6:00 PM'' ''1:15'' ''A'') = - 1 \<and>
   Week (make_row 0 DEFAULT_CONFIG (civil_date 1969 12 31) ''6:00 PM'' ''1:15'' ''A'') < 0"
proof -
  let ?b = "ex_block [[Str ''7/21/2025'', Str ''A'']]"
  let ?e = "make_row default_reference_date DEFAULT_CONFIG (civil_date 2025 7 21)
              ''6:00 PM'' ''1:15'' ''A''"
  have pb: "parse_block default_reference_date DEFAULT_CONFIG ?b = Inr [?e]"
    by (rule parse_block_ex_block)
  from week_floor_division [where ref = default_reference_date and cfg = DEFAULT_CONFIG
      and block = ?b and es = "[?e]" and e = ?e, THEN conjunct1] pb
  obtain r d where rd: "r \<in> set (drop 3 (rows ?b))"
      "to_datetime (Format_Date DEFAULT_CONFIG) (str_cell (cell_at r 0)) = Some (Timestamp d)"
      "Week ?e = ((value_ns d - default_reference_date) div ns_per_day) div 7"
    by auto
  from rd(1) have "r = [Str ''7/21/2025'', Str ''A'']" by (simp add: ex_block_def)
  with rd(2) have "d = civil_date 2025 7 21"
    by (simp add: cell_at_def to_datetime_2025_07_21)
  with rd(3) have w: "Week ?e = - 7"
    by (simp add: default_reference_date_def date_eval)
  have rest: "Day ?e = ''Monday''" "Date ?e = Str ''07/21/2025''"
    by (simp_all add: make_row_def day_name_def strftime_def DEFAULT_CONFIG_def date_eval
        text_eval)
  have a: "parse_block default_reference_date DEFAULT_CONFIG ?b =
     Inr [\<lparr>Week = - 7, Day = ''Monday'', Date = Str ''07/21/2025'', Start_Time = ''6:00 PM'',
           Duration = ''1:15'', Team = ''A''\<rparr>]"
    using pb w rest by (simp add: make_row_def)
  have b: "Week (make_row (value_ns (civil_date 2025 9 2)) DEFAULT_CONFIG (civil_date 2025 8 26)
           ''6:00 PM'' ''1:15'' ''A'') = - 1"
    using week_floor_division [where r' = "civil_date 2025 9 2" and d' = "civil_date 2025 8 26"
        and cfg = DEFAULT_CONFIG and st = "''6:00 PM''" and du = "''1:15''" and t = "''A''",
        THEN conjunct2, THEN conjunct1]
    by (simp add: date_eval)
  have c: "Week (make_row 0 DEFAULT_CONFIG (civil_date 1969 12 31) ''6:00 PM'' ''1:15'' ''A'') < 0"
    using week_floor_division [where ref = 0 and d' = "civil_date 1969 12 31"
        and cfg = DEFAULT_CONFIG and st = "''6:00 PM''" and du = "''1:15''" and t = "''A''",
        THEN conjunct2, THEN conjunct2, THEN conjunct1]
    by (simp add: date_eval)
  from a b c show ?thesis by blast
qed

subsection \<open>A sheet without a marker\<close>

lemma upt_small:
  "[0..<2] = [0, 1]" "[0..<3] = [0, 1, 2]" "[1..<2] = [1]" "[1..<3] = [1, 2]"
  "[0..<6] = [0, 1, 2, 3, 4, 5]" "[Suc 0..<2] = [1]" "[Suc 0..<3] = [1, 2]"
  by code_simp+

lemma parse_schedule_no_marker:
  "2 \<le> length (rows (df self)) \<Longrightarrow> date_cols (df self) = [] \<Longrightarrow> parse_schedule self = Inr []"
  by (simp add: parse_schedule_def blocks_of_def)

lemma single_marker_single_block:
  "date_cols d = [c] \<Longrightarrow> blocks_of d = [make_block d (c, ncols d)]"
  by (simp add: blocks_of_def)

lemma make_block_span:
  "ncols (make_block d (c, n)) = n - c \<and>
   (r \<in> set (rows (make_block d (c, n))) \<longrightarrow>
      (\<exists>r0 \<in> set (rows d). r = map (cell_at r0) [c..<n]))"
proof -
  let ?sub = "map (\<lambda>r. map (cell_at r) [c..<n]) (rows d)"
  have "set (rows (make_block d (c, n))) \<subseteq> set ?sub"
    by (auto simp: make_block_def Let_def dest: in_set_takeD in_set_dropD)
  then show ?thesis by (auto simp: make_block_def Let_def)
qed

lemma ex_frame_date_cols: "date_cols ex_frame = [0]"
  by (simp add: date_cols_def ex_frame_def cell_at_def upt_small text_eval)

text \<open>
  Claim C1 at its failing input: on the sheet of the repository's own test, where no
  cell of row 1 reads \<open>Date\<close>, \<open>parse_schedule\<close> returns the empty frame; it raises no
  error. (The second half of the claim holds: \<open>single_marker_single_block\<close>.)
\<close>

theorem parse_schedule_no_marker_empty:
  "date_cols day_marker_frame = [] \<and>
   parse_schedule \<lparr>schedule_path = ''schedule.txt'', reference_date = default_reference_date,
                    config = DEFAULT_CONFIG, df = day_marker_frame\<rparr> = Inr []"
proof -
  have dc: "date_cols day_marker_frame = []"
    by (simp add: date_cols_def day_marker_frame_def cell_at_def upt_small text_eval)
  have "2 \<le> length (rows day_marker_frame)" by (simp add: day_marker_frame_def)
  with dc show ?thesis by (simp add: parse_schedule_no_marker)
qed

subsection \<open>The order of the result\<close>

lemma reset_index_Index: "map Index (reset_index es) = [0..<length es]"
  by (rule nth_equalityI) (simp_all add: reset_index_def with_index_def)

lemma parse_schedule_Index:
  "parse_schedule self = Inr out \<Longrightarrow> map Index out = [0..<length out]"
proof -
  assume a: "parse_schedule self = Inr out"
  then have "out = [] \<or> (\<exists>es. out = reset_index es)"
    by (auto simp: parse_schedule_def split: if_splits sum.splits)
  then show ?thesis
  proof
    assume "out = []"
    then show ?thesis by simp
  next
    assume "\<exists>es. out = reset_index es"
    then obtain es where o: "out = reset_index es" by blast
    have "length (reset_index es) = length es" by (simp add: reset_index_def)
    with o show ?thesis by (simp add: reset_index_Index)
  qed
qed

lemma interval_9am_10am:
  "parse_time_and_duration DEFAULT_CONFIG (Str ''9 am - 10 am'') =
     Inr (Some (''9:00 AM'', ''1:00''))"
  by code_simp

lemma interval_10am_11am:
  "parse_time_and_duration DEFAULT_CONFIG (Str ''10 am - 11 am'') =
     Inr (Some (''10:00 AM'', ''1:00''))"
  by code_simp

lemma to_datetime_2025_07_21_padded:
  "to_datetime (Format_Date DEFAULT_CONFIG) ''07/21/2025'' = Some (Timestamp (civil_date 2025 7 21))"
  by (simp add: DEFAULT_CONFIG_def text_eval date_eval)

lemma strftime_2025_07_21:
  "strftime (Format_Date DEFAULT_CONFIG) (civil_date 2025 7 21) = ''07/21/2025''"
  by (simp add: strftime_def DEFAULT_CONFIG_def civil_date_def text_eval)

lemma row_entries_2025_07_21:
  "strip t = t \<Longrightarrow> t \<noteq> [] \<Longrightarrow> re_split ''/'' t = [t] \<Longrightarrow>
   row_entries ref DEFAULT_CONFIG st du (Str ''7/21/2025'') (Str t) =
     Inr [make_row ref DEFAULT_CONFIG (civil_date 2025 7 21) st du t]"
proof -
  assume a: "strip t = t" "t \<noteq> []" "re_split ''/'' t = [t]"
  have ice: "\<not> contains ''ice'' (lower ''7/21/2025'')" by (simp add: text_eval)
  have "team_list_of DEFAULT_CONFIG (Str t) = Some [t]"
    using a by (simp add: team_list_of_def DEFAULT_CONFIG_def)
  then show ?thesis by (simp add: row_entries_def ice to_datetime_2025_07_21)
qed

lemma morning_block:
  "parse_block ref DEFAULT_CONFIG (make_block morning_frame (0, 3)) =
     Inr [make_row ref DEFAULT_CONFIG (civil_date 2025 7 21) ''9:00 AM'' ''1:00'' ''A'',
          make_row ref DEFAULT_CONFIG (civil_date 2025 7 21) ''10:00 AM'' ''1:00'' ''B'']"
proof -
  have b: "make_block morning_frame (0, 3) = morning_frame"
    by (simp add: make_block_def morning_frame_def cell_at_def upt_small)
  have ra: "row_entries ref DEFAULT_CONFIG ''9:00 AM'' ''1:00'' (Str ''7/21/2025'') (Str ''A'') =
            Inr [make_row ref DEFAULT_CONFIG (civil_date 2025 7 21) ''9:00 AM'' ''1:00'' ''A'']"
    by (rule row_entries_2025_07_21) (simp_all add: re_split_def text_eval)
  have rb: "row_entries ref DEFAULT_CONFIG ''10:00 AM'' ''1:00'' (Str ''7/21/2025'') (Str ''B'') =
            Inr [make_row ref DEFAULT_CONFIG (civil_date 2025 7 21) ''10:00 AM'' ''1:00'' ''B'']"
    by (rule row_entries_2025_07_21) (simp_all add: re_split_def text_eval)
  have c1: "column_entries ref DEFAULT_CONFIG morning_frame (Suc 0) =
            Inr [make_row ref DEFAULT_CONFIG (civil_date 2025 7 21) ''9:00 AM'' ''1:00'' ''A'']"
    by (simp add: column_entries_def morning_frame_def cell_at_def interval_9am_10am ra)
  have c2: "column_entries ref DEFAULT_CONFIG morning_frame 2 =
            Inr [make_row ref DEFAULT_CONFIG (civil_date 2025 7 21) ''10:00 AM'' ''1:00'' ''B'']"
    by (simp add: column_entries_def morning_frame_def cell_at_def interval_10am_11am rb)
  have n: "ncols morning_frame = 3" by (simp add: morning_frame_def)
  show ?thesis
    by (simp add: b parse_block_def n upt_small c1 c2)
qed

text \<open>
  Claim C2 at its failing input: one date with a slot from 9 am (team A) and a slot
  from 10 am (team B). \<open>Start Time\<close> is sorted as the text it holds, and the text
  \<open>10:00 AM\<close> is below \<open>9:00 AM\<close>: the later slot comes first, with Index 0.
\<close>

theorem parse_schedule_sorts_start_time_as_text:
  "map (\<lambda>e. (Index e, Date e, Start_Time e, Team e))
       (projr (parse_schedule \<lparr>schedule_path = ''schedule.txt'',
                               reference_date = default_reference_date,
                               config = DEFAULT_CONFIG, df = morning_frame\<rparr>)) =
     [(0, Str ''07/21/2025'', ''10:00 AM'', ''B''), (1, Str ''07/21/2025'', ''9:00 AM'', ''A'')]"
proof -
  let ?self = "\<lparr>schedule_path = ''schedule.txt'', reference_date = default_reference_date,
                 config = DEFAULT_CONFIG, df = morning_frame\<rparr>"
  let ?a = "make_row default_reference_date DEFAULT_CONFIG (civil_date 2025 7 21)
              ''9:00 AM'' ''1:00'' ''A''"
  let ?b = "make_row default_reference_date DEFAULT_CONFIG (civil_date 2025 7 21)
              ''10:00 AM'' ''1:00'' ''B''"
  let ?t = "Timestamp (civil_date 2025 7 21)"
  have dc: "date_cols morning_frame = [0]"
    by (simp add: date_cols_def morning_frame_def cell_at_def upt_small text_eval)
  have bl: "blocks_of morning_frame = [make_block morning_frame (0, 3)]"
    using single_marker_single_block [OF dc] by (simp add: morning_frame_def)
  have da: "Date ?a = Str ''07/21/2025''" "Date ?b = Str ''07/21/2025''"
    by (simp_all add: make_row_def strftime_2025_07_21)
  have pd: "parse_dates (Format_Date DEFAULT_CONFIG) [?a, ?b] = Inr [(?t, ?a), (?t, ?b)]"
    by (simp add: da to_datetime_2025_07_21_padded)
  have le: "str_le ''10:00 AM'' ''9:00 AM''" "\<not> str_le ''9:00 AM'' ''10:00 AM''"
    by simp_all
  have so: "sort_values [(?t, ?a), (?t, ?b)] = [(?t, ?b), (?t, ?a)]"
    by (simp add: sort_values_def key_le_def make_row_def le)
  have fm: "map (format_date (Format_Date DEFAULT_CONFIG)) [(?t, ?b), (?t, ?a)] = [?b, ?a]"
    by (simp add: make_row_def strftime_2025_07_21)
  have len: "\<not> length (rows (df ?self)) < 2" by (simp add: morning_frame_def)
  have cr: "concat_results (map (parse_block (reference_date ?self) (config ?self))
                                (blocks_of (df ?self))) = Inr [?a, ?b]"
    by (simp add: bl morning_block)
  have ne: "[?a, ?b] \<noteq> []" by simp
  have "parse_schedule ?self = Inr (reset_index [?b, ?a])"
    unfolding parse_schedule_def using len cr pd so fm
    by (simp del: parse_dates.simps)
  moreover have "reset_index [?b, ?a] = [with_index 0 ?b, with_index 1 ?a]"
    by (simp add: reset_index_def upt_small)
  ultimately show ?thesis
    by (simp add: with_index_def make_row_def strftime_2025_07_21)
qed

end
